theory Spec2Isabelle
  imports Main "HOL-Library.Word" "HOL-Library.Sublist" "HOL-Library.Multiset"
begin

section \<open>Go values\<close>

text \<open>
  Go's \<open>int\<close> is a machine integer, 64 bits wide on the usual targets. It is read as a
  signed number with \<open>sint\<close>; \<open>+\<close> wraps around silently, as Go's addition does.
\<close>

type_synonym go_int = "64 word"

text \<open>The run-time panics that the modelled code can raise.\<close>

datatype fault = SliceBoundsOutOfRange | NilDereference

text \<open>
  A value of type \<open>interface{}\<close>, with the dynamic types the repository puts into it,
  and the struct \<open>Tool\<close>, whose \<open>InputSchema\<close> is a \<open>map[string]interface{}\<close>. A Go
  map is a partial function on its keys.
\<close>

datatype any =
    AnyNil
  | AnyString string
  | AnyBool bool
  | AnyInt go_int
  | AnyStrings "string list"
  | AnyList "any list"
  | AnyMap "string \<Rightarrow> any option"
  | AnyTools "Tool list"
and Tool =
  Tool (Name: string) (Description: string) (InputSchema: "string \<Rightarrow> any option")
    (GroupID: string)

record Group =
  ID :: string
  Name :: string
  Description :: string
  ParentID :: string
  ToolCount :: go_int

record FeatureSet =
  Groups :: bool
  Search :: bool
  DynamicTools :: bool

record EndpointConfig =
  Tools :: string
  Groups :: string

record LimitsConfig =
  MaxToolsPerRequest :: go_int
  MaxGroupsPerRequest :: go_int
  MaxSearchResults :: go_int

record Capabilities =
  Version :: string
  Features :: FeatureSet
  Endpoints :: EndpointConfig
  Limits :: "LimitsConfig option"

record ErrorDetail =
  Code :: string
  Message :: string

record MetaResponse =
  Type :: any
  Data :: any

record ExecuteResponse =
  Result :: any
  Error :: "ErrorDetail option"
  Meta :: "MetaResponse option"

record ToolsResponse =
  Tools :: "Tool list"
  Total :: go_int
  Offset :: go_int
  Limit :: go_int

record GroupsResponse =
  Groups :: "Group list"
  Total :: go_int
  Offset :: go_int
  Limit :: go_int

text \<open>
  A non-nil value of the interface type \<open>error\<close>. It is made by \<open>fmt.Errorf\<close> from a
  plain message, or it holds a \<open>*ErrorDetail\<close>, which the source documents as the
  structured error, or it has a type declared outside the repository. An interface value
  that holds a nil \<open>*ErrorDetail\<close> is itself not nil: it is \<open>Detail None\<close>.

  \<open>error_Error\<close> is the method \<open>Error()\<close>. For an \<open>ErrorDetail\<close> it formats
  \<open>"%s: %s"\<close> from the fields \<open>Code\<close> and \<open>Message\<close> of its receiver, and so
  panics on the nil receiver. An error of another type is given by what its method does:
  it returns a string or panics.
\<close>

datatype go_error =
    is_Errorf: Errorf string
  | is_Detail: Detail "ErrorDetail option"
  | is_OtherError: OtherError "fault + string"

fun error_Error :: "go_error \<Rightarrow> fault + string" where
  "error_Error (Errorf msg) = Inr msg"
| "error_Error (Detail None) = Inl NilDereference"
| "error_Error (Detail (Some e)) = Inr (Code e @ '': '' @ Message e)"
| "error_Error (OtherError r) = r"

text \<open>
  The result of a method declared \<open>(*T, error)\<close>: the pointer (\<open>None\<close> is nil) and the
  error (\<open>None\<close> is nil). A call that panics instead is \<open>Inl\<close> of the fault.
\<close>

type_synonym 'a go_result = "fault + ('a option \<times> go_error option)"

section \<open>Constructors of the catalog model\<close>

definition NewCapabilities :: "Capabilities" where
  "NewCapabilities =
     \<lparr>Version = ''1.0'',
      Features = \<lparr>FeatureSet.Groups = False, Search = False, DynamicTools = False\<rparr>,
      Endpoints = \<lparr>EndpointConfig.Tools = ''/tools'', EndpointConfig.Groups = ''''\<rparr>,
      Limits = None\<rparr>"

definition WithGroups :: "Capabilities \<Rightarrow> string \<Rightarrow> Capabilities" where
  "WithGroups c endpoint =
     (let c1 = c\<lparr>Features := (Features c)\<lparr>FeatureSet.Groups := True\<rparr>\<rparr>;
          endpoint1 = (if endpoint = '''' then ''/groups'' else endpoint)
      in c1\<lparr>Endpoints := (Endpoints c1)\<lparr>EndpointConfig.Groups := endpoint1\<rparr>\<rparr>)"

definition NewTool :: "string \<Rightarrow> string \<Rightarrow> Tool" where
  "NewTool name description =
     Tool name description
       [''type'' \<mapsto> AnyString ''object'',
        ''properties'' \<mapsto> AnyMap Map.empty,
        ''required'' \<mapsto> AnyStrings []]
       ''''"

definition WithGroup :: "Tool \<Rightarrow> string \<Rightarrow> Tool" where
  "WithGroup t groupID = Tool (Tool.Name t) (Tool.Description t) (InputSchema t) groupID"

definition NewGroup :: "string \<Rightarrow> string \<Rightarrow> string \<Rightarrow> Group" where
  "NewGroup gid name description =
     \<lparr>ID = gid, Name = name, Description = description, ParentID = '''', ToolCount = 0\<rparr>"

definition WithParent :: "Group \<Rightarrow> string \<Rightarrow> Group" where
  "WithParent g parentID = g\<lparr>ParentID := parentID\<rparr>"

definition WithToolCount :: "Group \<Rightarrow> go_int \<Rightarrow> Group" where
  "WithToolCount g n = g\<lparr>ToolCount := n\<rparr>"

section \<open>Meta responses\<close>

definition NewMetaToolsAdded :: "Tool list \<Rightarrow> MetaResponse" where
  "NewMetaToolsAdded tools =
     \<lparr>Type = AnyString ''tools_added'', Data = AnyMap [''tools'' \<mapsto> AnyTools tools]\<rparr>"

definition NewMetaGroupRefresh :: "string list \<Rightarrow> MetaResponse" where
  "NewMetaGroupRefresh groupIDs =
     \<lparr>Type = AnyString ''group_refresh'', Data = AnyMap [''group_ids'' \<mapsto> AnyStrings groupIDs]\<rparr>"

definition WithMeta :: "ExecuteResponse \<Rightarrow> MetaResponse \<Rightarrow> ExecuteResponse" where
  "WithMeta r meta = r\<lparr>Meta := Some meta\<rparr>"

definition NewExecuteResponse :: "any \<Rightarrow> ExecuteResponse" where
  "NewExecuteResponse result = \<lparr>Result = result, Error = None, Meta = None\<rparr>"

definition NewExecuteError :: "string \<Rightarrow> string \<Rightarrow> ExecuteResponse" where
  "NewExecuteError code message =
     \<lparr>Result = AnyNil, Error = Some \<lparr>Code = code, Message = message\<rparr>, Meta = None\<rparr>"

section \<open>The query engine\<close>

text \<open>
  \<open>strings.ToLower\<close> of Go's standard library. A string of ASCII bytes only is
  lower-cased byte by byte (and returned as it is when it has no upper-case letter); any
  other string is mapped rune by rune through the Unicode case tables, which are not part
  of the repository: that mapping is the parameter \<open>lc\<close>.
\<close>

definition isASCII :: "char \<Rightarrow> bool" where
  "isASCII c = ((of_char c :: nat) < 128)"

definition isUpper :: "char \<Rightarrow> bool" where
  "isUpper c = (65 \<le> (of_char c :: nat) \<and> (of_char c :: nat) \<le> 90)"

definition lowerByte :: "char \<Rightarrow> char" where
  "lowerByte c = (if isUpper c then char_of ((of_char c :: nat) + 32) else c)"

definition ToLower :: "(string \<Rightarrow> string) \<Rightarrow> string \<Rightarrow> string" where
  "ToLower lc s =
     (if list_all isASCII s
      then (if \<not> list_ex isUpper s then s else map lowerByte s)
      else lc s)"

text \<open>\<open>strings.Contains\<close>: the bytes of \<open>substr\<close> occur contiguously in \<open>s\<close>.\<close>

fun Contains :: "string \<Rightarrow> string \<Rightarrow> bool" where
  "Contains [] substr = (substr = [])"
| "Contains (c # s) substr = (prefix substr (c # s) \<or> Contains s substr)"

definition matchesQuery :: "(string \<Rightarrow> string) \<Rightarrow> string \<Rightarrow> string \<Rightarrow> string \<Rightarrow> bool" where
  "matchesQuery lc name description query =
     (let query1 = ToLower lc query;
          name1 = ToLower lc name;
          description1 = ToLower lc description
      in Contains name1 query1 \<or> Contains description1 query1)"

text \<open>
  \<open>len\<close> of a slice, as the Go \<open>int\<close> it is. The slice expression \<open>xs[low:high]\<close>
  panics unless \<open>0 \<le> low \<le> high \<le> cap(xs)\<close>. Both places that slice pass a \<open>high\<close>
  that is at most \<open>len(xs)\<close> or below \<open>low\<close>, so the bound \<open>len(xs) \<le> cap(xs)\<close>
  decides the same.
\<close>

definition len :: "'a list \<Rightarrow> go_int" where
  "len xs = word_of_nat (length xs)"

definition slice :: "'a list \<Rightarrow> go_int \<Rightarrow> go_int \<Rightarrow> fault + 'a list" where
  "slice xs low high =
     (if 0 \<le> sint low \<and> sint low \<le> sint high \<and> sint high \<le> sint (len xs)
      then Inr (take (nat (sint high - sint low)) (drop (nat (sint low)) xs))
      else Inl SliceBoundsOutOfRange)"

text \<open>
  The pagination block, which \<open>ListTools\<close> (lines 88 to 99) and \<open>ListGroups\<close> (lines
  179 to 190) both contain word for word.
\<close>

definition paginate :: "'a list \<Rightarrow> go_int \<Rightarrow> go_int \<Rightarrow> fault + 'a list" where
  "paginate xs offset limit =
     (if sint (len xs) \<le> sint offset then Inr []
      else
        (let end0 = offset + limit;
             end1 = (if limit = 0 \<or> sint (len xs) < sint end0 then len xs else end0)
         in slice xs offset end1))"

section \<open>The providers\<close>

text \<open>
  A \<open>ToolExecutor\<close> returns a result and an error, or panics. Calling a nil executor
  panics too, so a nil executor is the function that always returns \<open>Inl NilDereference\<close>.
  The parameter map is never written by the modelled code; a nil map reads as the
  empty one.
\<close>

type_synonym params = "string \<Rightarrow> any option"

type_synonym ToolExecutor = "params \<Rightarrow> fault + (any \<times> go_error option)"

record SimpleProvider =
  capabilities :: Capabilities
  tools :: "string \<Rightarrow> Tool option"
  executors :: "string \<Rightarrow> ToolExecutor option"

record GroupProviderImpl =
  SimpleProvider :: SimpleProvider
  groups :: "string \<Rightarrow> Group option"

definition NewSimpleProvider :: "Capabilities option \<Rightarrow> SimpleProvider" where
  "NewSimpleProvider caps =
     \<lparr>capabilities = (case caps of None \<Rightarrow> NewCapabilities | Some c \<Rightarrow> c),
      tools = Map.empty,
      executors = Map.empty\<rparr>"

definition RegisterTool :: "SimpleProvider \<Rightarrow> Tool \<Rightarrow> ToolExecutor \<Rightarrow> SimpleProvider" where
  "RegisterTool p tool executor =
     p\<lparr>tools := (tools p)(Tool.Name tool \<mapsto> tool),
       executors := (executors p)(Tool.Name tool \<mapsto> executor)\<rparr>"

definition GetCapabilities :: "SimpleProvider \<Rightarrow> Capabilities" where
  "GetCapabilities p = capabilities p"

definition NewGroupProvider :: "Capabilities option \<Rightarrow> GroupProviderImpl" where
  "NewGroupProvider caps =
     (let c = (case caps of None \<Rightarrow> NewCapabilities | Some c \<Rightarrow> c);
          c1 = WithGroups c ''''
      in \<lparr>SimpleProvider = NewSimpleProvider (Some c1), groups = Map.empty\<rparr>)"

definition RegisterGroup :: "GroupProviderImpl \<Rightarrow> Group \<Rightarrow> GroupProviderImpl" where
  "RegisterGroup p grp = p\<lparr>groups := (groups p)(ID grp \<mapsto> grp)\<rparr>"

text \<open>
  \<open>for _, v := range m\<close> visits every entry of the map once, in an order that Go leaves
  unspecified and that its runtime varies from one loop to the next. The order taken by
  one loop is the list \<open>ks\<close> of keys; \<open>iteration_order m ks\<close> says that \<open>ks\<close> is such
  an order, and \<open>map_range m ks\<close> are the values the loop sees.
\<close>

definition iteration_order :: "('k \<Rightarrow> 'v option) \<Rightarrow> 'k list \<Rightarrow> bool" where
  "iteration_order m ks = (distinct ks \<and> set ks = dom m)"

fun map_range :: "('k \<Rightarrow> 'v option) \<Rightarrow> 'k list \<Rightarrow> 'v list" where
  "map_range m [] = []"
| "map_range m (k # ks) =
     (case m k of None \<Rightarrow> map_range m ks | Some v \<Rightarrow> v # map_range m ks)"

text \<open>The filtering loop of \<open>ListTools\<close>, with the slice \<open>tools\<close> it appends to.\<close>

fun ListTools_loop ::
  "(string \<Rightarrow> string) \<Rightarrow> string \<Rightarrow> string \<Rightarrow> Tool list \<Rightarrow> Tool list \<Rightarrow> Tool list" where
  "ListTools_loop lc groupID query [] tools0 = tools0"
| "ListTools_loop lc groupID query (tool # rest) tools0 =
     (if groupID \<noteq> '''' \<and> GroupID tool \<noteq> groupID
      then ListTools_loop lc groupID query rest tools0
      else if query \<noteq> '''' \<and> \<not> matchesQuery lc (Tool.Name tool) (Tool.Description tool) query
      then ListTools_loop lc groupID query rest tools0
      else ListTools_loop lc groupID query rest (tools0 @ [tool]))"

definition ListTools ::
  "(string \<Rightarrow> string) \<Rightarrow> SimpleProvider \<Rightarrow> string \<Rightarrow> string \<Rightarrow> go_int \<Rightarrow> go_int \<Rightarrow>
   string list \<Rightarrow> ToolsResponse go_result" where
  "ListTools lc p groupID query offset limit ks =
     (let tools0 = ListTools_loop lc groupID query (map_range (tools p) ks) [];
          total = len tools0
      in case paginate tools0 offset limit of
           Inl f \<Rightarrow> Inl f
         | Inr tools1 \<Rightarrow>
             Inr (Some \<lparr>Tools = tools1, Total = total, Offset = offset, Limit = limit\<rparr>, None))"

definition ExecuteTool :: "SimpleProvider \<Rightarrow> string \<Rightarrow> params \<Rightarrow> ExecuteResponse go_result" where
  "ExecuteTool p toolName ps =
     (case executors p toolName of
        None \<Rightarrow>
          Inr (Some \<lparr>Result = AnyNil,
                     Error = Some \<lparr>Code = ''tool_not_found'',
                                   Message = ''Tool not found: '' @ toolName\<rparr>,
                     Meta = None\<rparr>, None)
      | Some executor \<Rightarrow>
          (case executor ps of
             Inl f \<Rightarrow> Inl f
           | Inr (result, Some err) \<Rightarrow>
               (case error_Error err of
                  Inl f \<Rightarrow> Inl f
                | Inr message \<Rightarrow>
                    Inr (Some \<lparr>Result = AnyNil,
                               Error = Some \<lparr>Code = ''execution_error'', Message = message\<rparr>,
                               Meta = None\<rparr>, None))
           | Inr (result, None) \<Rightarrow>
               Inr (Some \<lparr>Result = result, Error = None, Meta = None\<rparr>, None)))"

text \<open>The filtering loop of \<open>ListGroups\<close>.\<close>

fun ListGroups_loop ::
  "(string \<Rightarrow> string) \<Rightarrow> string \<Rightarrow> string \<Rightarrow> Group list \<Rightarrow> Group list \<Rightarrow> Group list" where
  "ListGroups_loop lc parentID query [] groups0 = groups0"
| "ListGroups_loop lc parentID query (grp # rest) groups0 =
     (if parentID \<noteq> '''' \<and> ParentID grp \<noteq> parentID
      then ListGroups_loop lc parentID query rest groups0
      else if query \<noteq> '''' \<and> \<not> matchesQuery lc (Group.Name grp) (Group.Description grp) query
      then ListGroups_loop lc parentID query rest groups0
      else ListGroups_loop lc parentID query rest (groups0 @ [grp]))"

definition ListGroups ::
  "(string \<Rightarrow> string) \<Rightarrow> GroupProviderImpl \<Rightarrow> string \<Rightarrow> string \<Rightarrow> go_int \<Rightarrow> go_int \<Rightarrow>
   string list \<Rightarrow> GroupsResponse go_result" where
  "ListGroups lc p parentID query offset limit ks =
     (let groups0 = ListGroups_loop lc parentID query (map_range (groups p) ks) [];
          total = len groups0
      in case paginate groups0 offset limit of
           Inl f \<Rightarrow> Inl f
         | Inr groups1 \<Rightarrow>
             Inr (Some \<lparr>Groups = groups1, Total = total, Offset = offset, Limit = limit\<rparr>, None))"

definition GetGroup :: "GroupProviderImpl \<Rightarrow> string \<Rightarrow> Group go_result" where
  "GetGroup p groupID =
     (case groups p groupID of
        None \<Rightarrow>
          Inr (None, Some (Detail (Some \<lparr>Code = ''group_not_found'',
                                         Message = ''Group not found: '' @ groupID\<rparr>)))
      | Some grp \<Rightarrow> Inr (Some grp, None))"

text \<open>
  An item stays in the loop when neither \<open>continue\<close> is taken. \<open>tool_matches\<close> and
  \<open>group_matches\<close> are the negations of the two conditions of the loop bodies, and
  \<open>matching_tools\<close> and \<open>matching_groups\<close> are the items that a loop visiting the
  map in the order \<open>ks\<close> keeps, before the slicing.
\<close>

definition tool_matches :: "(string \<Rightarrow> string) \<Rightarrow> string \<Rightarrow> string \<Rightarrow> Tool \<Rightarrow> bool" where
  "tool_matches lc groupID query tool =
     (\<not> (groupID \<noteq> '''' \<and> GroupID tool \<noteq> groupID) \<and>
      \<not> (query \<noteq> '''' \<and> \<not> matchesQuery lc (Tool.Name tool) (Tool.Description tool) query))"

definition group_matches :: "(string \<Rightarrow> string) \<Rightarrow> string \<Rightarrow> string \<Rightarrow> Group \<Rightarrow> bool" where
  "group_matches lc parentID query grp =
     (\<not> (parentID \<noteq> '''' \<and> Group.ParentID grp \<noteq> parentID) \<and>
      \<not> (query \<noteq> '''' \<and> \<not> matchesQuery lc (Group.Name grp) (Group.Description grp) query))"

definition matching_tools ::
  "(string \<Rightarrow> string) \<Rightarrow> SimpleProvider \<Rightarrow> string \<Rightarrow> string \<Rightarrow> string list \<Rightarrow> Tool list" where
  "matching_tools lc p groupID query ks =
     filter (tool_matches lc groupID query) (map_range (tools p) ks)"

definition matching_groups ::
  "(string \<Rightarrow> string) \<Rightarrow> GroupProviderImpl \<Rightarrow> string \<Rightarrow> string \<Rightarrow> string list \<Rightarrow> Group list" where
  "matching_groups lc p parentID query ks =
     filter (group_matches lc parentID query) (map_range (groups p) ks)"

section \<open>The server's use cases\<close>

text \<open>
  A value of the interface type \<open>ToolProvider\<close>. Its dynamic type is one of the two
  implementations of the repository; \<open>GroupProviderImpl\<close> alone has the methods of
  \<open>GroupProvider\<close>, so the type assertion \<open>s.provider.(GroupProvider)\<close> succeeds on it
  and fails on a \<open>SimpleProvider\<close>.
\<close>

datatype ToolProvider =
    IsSimpleProvider SimpleProvider
  | IsGroupProviderImpl GroupProviderImpl

definition as_GroupProvider :: "ToolProvider \<Rightarrow> GroupProviderImpl option" where
  "as_GroupProvider pr =
     (case pr of IsSimpleProvider p \<Rightarrow> None | IsGroupProviderImpl gp \<Rightarrow> Some gp)"

text \<open>
  Method calls through the interfaces. \<open>GroupProviderImpl\<close> embeds \<open>*SimpleProvider\<close>,
  so its \<open>ExecuteTool\<close> is the promoted method of the embedded provider.
\<close>

definition ToolProvider_ExecuteTool ::
  "ToolProvider \<Rightarrow> string \<Rightarrow> params \<Rightarrow> ExecuteResponse go_result" where
  "ToolProvider_ExecuteTool pr toolName ps =
     (case pr of
        IsSimpleProvider p \<Rightarrow> ExecuteTool p toolName ps
      | IsGroupProviderImpl gp \<Rightarrow> ExecuteTool (SimpleProvider gp) toolName ps)"

definition GroupProvider_ExecuteTool ::
  "GroupProviderImpl \<Rightarrow> string \<Rightarrow> params \<Rightarrow> ExecuteResponse go_result" where
  "GroupProvider_ExecuteTool gp toolName ps = ExecuteTool (SimpleProvider gp) toolName ps"

text \<open>The field \<open>service\<close> of the server belongs to the HTTP framework and is left out.\<close>

record Server =
  provider :: ToolProvider

record ListGroupsInput =
  Q :: string
  ParentID :: string
  Offset :: go_int
  Limit :: go_int

text \<open>
  The input structs that the two execute use cases declare locally: the embedded
  \<open>ExecuteToolInput\<close> or \<open>ExecuteGroupToolInput\<close>, and the field \<open>Body\<close>, a map
  that may be nil (\<open>None\<close>).
\<close>

record ExecuteToolInput =
  Name :: string
  Params :: "params option"
  Body :: "params option"

record ExecuteGroupToolInput =
  ID :: string
  Name :: string
  Params :: "params option"
  Body :: "params option"

text \<open>
  A use case is the function given to \<open>usecase.NewInteractor\<close>. It receives the input
  and a pointer to the output, and returns an error; the model returns the output as the
  function leaves it, with the error. The iteration order \<open>ks\<close> is the one that the
  provider's loop over its map takes during this call.
\<close>

definition listGroupsUsecase ::
  "(string \<Rightarrow> string) \<Rightarrow> Server \<Rightarrow> ListGroupsInput \<Rightarrow> GroupsResponse \<Rightarrow> string list \<Rightarrow>
   fault + (GroupsResponse \<times> go_error option)" where
  "listGroupsUsecase lc s input output ks =
     (case as_GroupProvider (provider s) of
        None \<Rightarrow> Inr (output, Some (Errorf ''groups not supported''))
      | Some groupProvider \<Rightarrow>
          (let limit = (if ListGroupsInput.Limit input = 0 then 50
                        else ListGroupsInput.Limit input)
           in case ListGroups lc groupProvider (ListGroupsInput.ParentID input)
                     (Q input) (ListGroupsInput.Offset input) limit ks of
                Inl f \<Rightarrow> Inl f
              | Inr (resp, Some err) \<Rightarrow> Inr (output, Some err)
              | Inr (None, None) \<Rightarrow> Inl NilDereference
              | Inr (Some r, None) \<Rightarrow> Inr (r, None)))"

definition executeToolUsecase ::
  "Server \<Rightarrow> ExecuteToolInput \<Rightarrow> ExecuteResponse \<Rightarrow>
   fault + (ExecuteResponse \<times> go_error option)" where
  "executeToolUsecase s inp output =
     (let ps = (case ExecuteToolInput.Body inp of None \<Rightarrow> Map.empty | Some b \<Rightarrow> b)
      in case ToolProvider_ExecuteTool (provider s) (ExecuteToolInput.Name inp) ps of
           Inl f \<Rightarrow> Inl f
         | Inr (resp, Some err) \<Rightarrow> Inr (output, Some err)
         | Inr (None, None) \<Rightarrow> Inl NilDereference
         | Inr (Some r, None) \<Rightarrow> Inr (r, None))"

definition executeGroupToolUsecase ::
  "Server \<Rightarrow> ExecuteGroupToolInput \<Rightarrow> ExecuteResponse \<Rightarrow>
   fault + (ExecuteResponse \<times> go_error option)" where
  "executeGroupToolUsecase s inp output =
     (case as_GroupProvider (provider s) of
        None \<Rightarrow> Inr (output, Some (Errorf ''groups not supported''))
      | Some groupProvider \<Rightarrow>
          (let ps = (case ExecuteGroupToolInput.Body inp of None \<Rightarrow> Map.empty | Some b \<Rightarrow> b)
           in case GroupProvider_ExecuteTool groupProvider (ExecuteGroupToolInput.Name inp) ps of
                Inl f \<Rightarrow> Inl f
              | Inr (resp, Some err) \<Rightarrow> Inr (output, Some err)
              | Inr (None, None) \<Rightarrow> Inl NilDereference
              | Inr (Some r, None) \<Rightarrow> Inr (r, None)))"

section \<open>An example registry\<close>

text \<open>
  The two tools and the two groups of the repository's advanced example, with two
  executors: one that returns its parameters, one that returns an error.
\<close>

definition addTool :: Tool where
  "addTool = WithGroup (NewTool ''add'' ''Add two numbers'') ''math''"

definition uppercaseTool :: Tool where
  "uppercaseTool = WithGroup (NewTool ''uppercase'' ''Convert text to uppercase'') ''string''"

definition echoExecutor :: ToolExecutor where
  "echoExecutor = (\<lambda>ps. Inr (AnyMap ps, None))"

definition failingExecutor :: ToolExecutor where
  "failingExecutor = (\<lambda>ps. Inr (AnyNil, Some (Errorf ''text is required'')))"

text \<open>
  An executor that declares a \<open>*ErrorDetail\<close>, leaves it nil and returns it as its
  error, and a provider with one tool that runs it.
\<close>

definition nilDetailExecutor :: ToolExecutor where
  "nilDetailExecutor = (\<lambda>ps. Inr (AnyNil, Some (Detail None)))"

definition nilDetailProvider :: SimpleProvider where
  "nilDetailProvider =
     RegisterTool (NewSimpleProvider None) (NewTool ''lookup'' ''Look a record up'')
       nilDetailExecutor"

definition exampleProvider :: SimpleProvider where
  "exampleProvider =
     RegisterTool (RegisterTool (NewSimpleProvider None) addTool echoExecutor)
       uppercaseTool failingExecutor"

definition mathGroup :: Group where
  "mathGroup = WithToolCount (NewGroup ''math'' ''Mathematics'' ''Mathematical operations'') 3"

definition stringGroup :: Group where
  "stringGroup =
     WithToolCount (NewGroup ''string'' ''String Operations'' ''Tools for manipulating strings'') 2"

definition exampleGroupProvider :: GroupProviderImpl where
  "exampleGroupProvider =
     (RegisterGroup (RegisterGroup (NewGroupProvider None) mathGroup) stringGroup)
       \<lparr>SimpleProvider := exampleProvider\<rparr>"

section \<open>Lemmas on machine integers and pagination\<close>

lemma sint_len: "length xs < 2 ^ 63 \<Longrightarrow> sint (len xs) = int (length xs)"
proof -
  assume a: "length xs < 2 ^ 63"
  have "int (length xs) < 2 ^ 63"
    using a by (simp add: of_nat_less_numeral_power_cancel_iff)
  moreover have "- (2 ^ 63) \<le> int (length xs)" by simp
  ultimately have "signed_take_bit 63 (int (length xs)) = int (length xs)"
    by (rule signed_take_bit_int_eq_self[rotated])
  then show ?thesis by (simp add: len_def signed_of_nat)
qed

lemma sint_add_no_wrap:
  fixes a b :: go_int
  assumes "0 \<le> sint a" "0 \<le> sint b" "sint a + sint b < 2 ^ 63"
  shows "sint (a + b) = sint a + sint b"
proof -
  have "- (2 ^ 63) \<le> sint a + sint b" using assms by simp
  then have "signed_take_bit 63 (sint a + sint b) = sint a + sint b"
    using assms(3) by (rule signed_take_bit_int_eq_self)
  then show ?thesis by (simp add: sint_word_ariths)
qed

lemma paginate_in_range:
  assumes n: "length xs < 2 ^ 63"
    and o: "0 \<le> sint offset" and l: "0 \<le> sint limit"
    and w: "int (length xs) \<le> sint offset \<or> limit = 0 \<or> sint offset + sint limit < 2 ^ 63"
  shows "paginate xs offset limit =
           Inr (take (if limit = 0 then length xs else nat (sint limit))
                  (drop (nat (sint offset)) xs))"
proof (cases "int (length xs) \<le> sint offset")
  case True
  then show ?thesis using n o by (simp add: paginate_def sint_len)
next
  case False
  note lt = False
  show ?thesis
  proof (cases "limit = 0")
    case True
    then show ?thesis using lt n o
      by (simp add: paginate_def slice_def sint_len Let_def)
  next
    case False
    then have s: "sint (offset + limit) = sint offset + sint limit"
      using w lt o l by (simp add: sint_add_no_wrap)
    show ?thesis
    proof (cases "int (length xs) < sint offset + sint limit")
      case True
      then show ?thesis using lt n o l False s
        by (simp add: paginate_def slice_def sint_len Let_def)
    next
      case False
      then show ?thesis using lt n o l \<open>limit \<noteq> 0\<close> s
        by (simp add: paginate_def slice_def sint_len Let_def)
    qed
  qed
qed

lemma paginate_same_length:
  assumes "length xs = length ys"
  shows "(\<forall>f. paginate xs offset limit = Inl f \<longleftrightarrow> paginate ys offset limit = Inl f) \<and>
         (\<forall>p q. paginate xs offset limit = Inr p \<longrightarrow> paginate ys offset limit = Inr q \<longrightarrow>
                length p = length q)"
  using assms by (auto simp: paginate_def slice_def len_def Let_def split: if_splits)

lemma paginate_subset: "paginate xs offset limit = Inr page \<Longrightarrow> set page \<subseteq> set xs"
  by (auto simp: paginate_def slice_def Let_def split: if_splits
      dest: in_set_takeD in_set_dropD)

section \<open>Lemmas on the loops\<close>

lemma ListTools_loop_step:
  "ListTools_loop lc groupID query (tool # rest) acc =
     (if tool_matches lc groupID query tool
      then ListTools_loop lc groupID query rest (acc @ [tool])
      else ListTools_loop lc groupID query rest acc)"
  by (simp add: tool_matches_def)

lemma ListTools_loop_filter:
  "ListTools_loop lc groupID query vs acc = acc @ filter (tool_matches lc groupID query) vs"
proof (induction vs arbitrary: acc)
  case Nil
  show ?case by simp
next
  case (Cons tool rest)
  show ?case by (simp only: ListTools_loop_step Cons.IH) simp
qed

lemma ListGroups_loop_step:
  "ListGroups_loop lc parentID query (grp # rest) acc =
     (if group_matches lc parentID query grp
      then ListGroups_loop lc parentID query rest (acc @ [grp])
      else ListGroups_loop lc parentID query rest acc)"
  by (simp add: group_matches_def)

lemma ListGroups_loop_filter:
  "ListGroups_loop lc parentID query vs acc = acc @ filter (group_matches lc parentID query) vs"
proof (induction vs arbitrary: acc)
  case Nil
  show ?case by simp
next
  case (Cons grp rest)
  show ?case by (simp only: ListGroups_loop_step Cons.IH) simp
qed

lemma Contains_sublist: "Contains s substr \<longleftrightarrow> sublist substr s"
  by (induction s) (simp_all add: sublist_Cons_right)

lemma Contains_iff: "Contains s substr \<longleftrightarrow> (\<exists>pre suf. s = pre @ substr @ suf)"
  by (simp add: Contains_sublist sublist_def)

lemma map_range_eq: "map_range m ks = map (\<lambda>k. the (m k)) (filter (\<lambda>k. m k \<noteq> None) ks)"
  by (induction ks) (auto split: option.splits)

lemma set_map_range: "set (map_range m ks) \<subseteq> ran m"
  by (induction ks) (auto split: option.splits simp: ran_def)

lemma length_map_range: "length (map_range m ks) \<le> length ks"
  by (induction ks) (auto split: option.splits)

lemma mset_map_range:
  assumes "iteration_order m ks1" "iteration_order m ks2"
  shows "mset (map_range m ks1) = mset (map_range m ks2)"
proof -
  have "mset ks1 = mset ks2"
    using assms set_eq_iff_mset_eq_distinct [of ks1 ks2]
    by (simp add: iteration_order_def)
  then have "mset (map (\<lambda>k. the (m k)) (filter (\<lambda>k. m k \<noteq> None) ks1)) =
             mset (map (\<lambda>k. the (m k)) (filter (\<lambda>k. m k \<noteq> None) ks2))"
    by simp
  then show ?thesis by (simp only: map_range_eq)
qed

lemma ListTools_eq:
  "ListTools lc p groupID query offset limit ks =
     (case paginate (matching_tools lc p groupID query ks) offset limit of
        Inl f \<Rightarrow> Inl f
      | Inr page \<Rightarrow>
          Inr (Some \<lparr>Tools = page, Total = len (matching_tools lc p groupID query ks),
                     Offset = offset, Limit = limit\<rparr>, None))"
  unfolding ListTools_def matching_tools_def ListTools_loop_filter Let_def append_Nil by simp

lemma ListGroups_eq:
  "ListGroups lc p parentID query offset limit ks =
     (case paginate (matching_groups lc p parentID query ks) offset limit of
        Inl f \<Rightarrow> Inl f
      | Inr page \<Rightarrow>
          Inr (Some \<lparr>Groups = page, Total = len (matching_groups lc p parentID query ks),
                     Offset = offset, Limit = limit\<rparr>, None))"
  unfolding ListGroups_def matching_groups_def ListGroups_loop_filter Let_def append_Nil by simp

lemma length_matching_tools: "length (matching_tools lc p groupID query ks) \<le> length ks"
  unfolding matching_tools_def
  by (rule order_trans [OF length_filter_le length_map_range])

lemma length_matching_groups: "length (matching_groups lc p parentID query ks) \<le> length ks"
  unfolding matching_groups_def
  by (rule order_trans [OF length_filter_le length_map_range])

section \<open>Further lemmas on pagination and on the example registry\<close>

lemma page_length:
  assumes "0 \<le> sint offset" "0 \<le> sint limit"
  shows "int (length (take (if limit = 0 then length xs else nat (sint limit))
                  (drop (nat (sint offset)) xs))) =
         min (max (int (length xs) - sint offset) 0)
             (if limit = 0 then max (int (length xs) - sint offset) 0 else sint limit)"
  using assms by (auto simp: min_def max_def)

lemma paginate_page:
  assumes n: "length xs < 2 ^ 63"
    and o: "0 \<le> sint offset" and l: "0 \<le> sint limit"
    and w: "int (length xs) \<le> sint offset \<or> limit = 0 \<or> sint offset + sint limit < 2 ^ 63"
  shows "\<exists>page. paginate xs offset limit = Inr page \<and>
           int (length page) =
             min (max (int (length xs) - sint offset) 0)
                 (if limit = 0 then max (int (length xs) - sint offset) 0 else sint limit) \<and>
           (int (length xs) \<le> sint offset \<longrightarrow> page = []) \<and>
           (limit = 0 \<longrightarrow> page = drop (nat (sint offset)) xs)"
proof -
  let ?page = "take (if limit = 0 then length xs else nat (sint limit)) (drop (nat (sint offset)) xs)"
  have 1: "paginate xs offset limit = Inr ?page"
    using n o l w by (rule paginate_in_range)
  have 2: "int (length ?page) =
             min (max (int (length xs) - sint offset) 0)
                 (if limit = 0 then max (int (length xs) - sint offset) 0 else sint limit)"
    using o l by (rule page_length)
  have 3: "int (length xs) \<le> sint offset \<longrightarrow> ?page = []"
    using o by simp
  have 4: "limit = 0 \<longrightarrow> ?page = drop (nat (sint offset)) xs"
    by simp
  from 1 2 3 4 show ?thesis by blast
qed

lemma paginate_wraps:
  assumes n: "length xs < 2 ^ 63"
    and o: "0 \<le> sint offset" and l: "0 \<le> sint limit"
    and lt: "sint offset < int (length xs)" and nz: "limit \<noteq> 0"
    and w: "2 ^ 63 \<le> sint offset + sint limit"
  shows "paginate xs offset limit = Inl SliceBoundsOutOfRange"
proof -
  have "sint (offset + limit) = signed_take_bit 63 (sint offset + sint limit)"
    by (simp add: sint_word_ariths)
  also have "\<dots> \<le> sint offset + sint limit - 2 ^ Suc 63"
    using w by (rule signed_take_bit_int_less_eq)
  finally have a: "sint (offset + limit) \<le> sint offset + sint limit - 2 ^ 64" by simp
  have "sint offset < 2 ^ 63" "sint limit < 2 ^ 63"
    using sint_lt [of offset] sint_lt [of limit] by simp_all
  with a have neg: "sint (offset + limit) < 0" by simp
  show ?thesis
    using neg n o lt nz by (simp add: paginate_def slice_def sint_len Let_def)
qed

lemma paginate_Nil: "0 \<le> sint offset \<Longrightarrow> paginate [] offset limit = Inr []"
  by (simp add: paginate_def len_def)

lemma paginate_whole:
  assumes "length xs < 2 ^ 63"
  shows "paginate xs 0 0 = Inr xs"
  using paginate_in_range [of xs 0 0] assms by simp

lemma take_drop_whole:
  assumes "length (take a (drop b xs)) = length xs"
  shows "take a (drop b xs) = xs"
proof (cases "xs = []")
  case True
  then show ?thesis by simp
next
  case False
  from assms have m: "min a (length xs - b) = length xs" by simp
  then have "length xs \<le> length xs - b" by (simp add: min_def split: if_splits)
  moreover have "0 < length xs" using False by simp
  ultimately have b: "b = 0" by arith
  from m have "length xs \<le> a" by (simp add: min_def split: if_splits)
  with b show ?thesis by simp
qed

lemma paginate_covering:
  assumes "paginate xs offset limit = Inr page" and "length page = length xs"
  shows "page = xs"
  using assms
  by (auto simp: paginate_def slice_def Let_def split: if_splits intro: take_drop_whole)

lemma paginate_from_start:
  assumes n: "length xs < 2 ^ 63"
    and l: "limit = 0 \<or> int (length xs) \<le> sint limit"
  shows "paginate xs 0 limit = Inr xs"
proof -
  have l0: "0 \<le> sint limit"
    using l by auto
  have w: "int (length xs) \<le> sint (0 :: go_int) \<or> limit = 0 \<or>
           sint (0 :: go_int) + sint limit < 2 ^ 63"
    using sint_lt [of limit] by simp
  have "paginate xs 0 limit =
          Inr (take (if limit = 0 then length xs else nat (sint limit)) (drop (nat (sint (0 :: go_int))) xs))"
    using n _ l0 w by (rule paginate_in_range) simp
  then show ?thesis using l by auto
qed

lemma tool_matches_group:
  "groupID \<noteq> '''' \<Longrightarrow>
   tool_matches lc groupID query t \<longleftrightarrow>
     GroupID t = groupID \<and>
     (query = '''' \<or> matchesQuery lc (Tool.Name t) (Tool.Description t) query)"
  by (auto simp: tool_matches_def)

lemma set_matching_tools:
  "set (matching_tools lc p groupID query ks) \<subseteq> {t \<in> ran (tools p). tool_matches lc groupID query t}"
  using set_map_range [of "tools p" ks] by (auto simp: matching_tools_def)

lemma mset_matching_tools:
  assumes "iteration_order (tools p) ks1" "iteration_order (tools p) ks2"
  shows "mset (matching_tools lc p groupID query ks1) = mset (matching_tools lc p groupID query ks2)"
  using mset_map_range [OF assms] by (simp add: matching_tools_def)

lemma matchesQuery_iff:
  "matchesQuery lc name description query \<longleftrightarrow>
     (\<exists>pre suf. ToLower lc name = pre @ ToLower lc query @ suf) \<or>
     (\<exists>pre suf. ToLower lc description = pre @ ToLower lc query @ suf)"
  by (simp add: matchesQuery_def Let_def Contains_iff)

lemmas example_defs =
  exampleProvider_def exampleGroupProvider_def RegisterTool_def RegisterGroup_def
  NewSimpleProvider_def NewGroupProvider_def NewCapabilities_def WithGroups_def
  addTool_def uppercaseTool_def NewTool_def WithGroup_def
  mathGroup_def stringGroup_def NewGroup_def WithToolCount_def
  echoExecutor_def failingExecutor_def

lemma example_tools:
  "tools exampleProvider = [''add'' \<mapsto> addTool, ''uppercase'' \<mapsto> uppercaseTool]"
  by (simp add: exampleProvider_def RegisterTool_def NewSimpleProvider_def)
     (simp add: addTool_def uppercaseTool_def NewTool_def WithGroup_def)

lemma example_ran: "ran (tools exampleProvider) = {addTool, uppercaseTool}"
  by (auto simp add: example_tools)

lemma example_matching_tools:
  "matching_tools id exampleProvider '''' '''' [''add'', ''uppercase''] = [addTool, uppercaseTool]"
  by (simp add: matching_tools_def tool_matches_def example_defs)

lemma example_matching_groups:
  "matching_groups id exampleGroupProvider '''' '''' [''math'', ''string''] = [mathGroup, stringGroup]"
  by (simp add: matching_groups_def group_matches_def example_defs)

section \<open>The claims\<close>

text \<open>
  Claim C1, as amended. Let \<open>total\<close> be the number of items that pass the group (or
  parent) filter and the query filter, in a registry of fewer than \<open>2 ^ 63\<close> entries.
  For every non-negative \<open>offset\<close> and \<open>limit\<close> such that \<open>offset \<ge> total\<close>, or
  \<open>limit = 0\<close>, or \<open>offset + limit\<close> does not exceed the largest \<open>int\<close>, \<open>ListTools\<close>
  and \<open>ListGroups\<close> return, with a nil error, a response whose \<open>Total\<close> is \<open>total\<close>
  and whose page has the length
  \<open>min (max (total - offset) 0) (if limit = 0 then max (total - offset) 0 else limit)\<close>.
  If \<open>offset \<ge> total\<close> the page is empty, and \<open>limit = 0\<close> returns all the items that
  remain from \<open>offset\<close>.
\<close>

theorem C1_page_length:
  fixes offset limit :: go_int
  assumes "0 \<le> sint offset" and "0 \<le> sint limit"
    and "length ks < 2 ^ 63" and "length gks < 2 ^ 63"
    and "int (length (matching_tools lc p groupID query ks)) \<le> sint offset \<or> limit = 0 \<or>
         sint offset + sint limit < 2 ^ 63"
    and "int (length (matching_groups lc gp parentID gquery gks)) \<le> sint offset \<or> limit = 0 \<or>
         sint offset + sint limit < 2 ^ 63"
  shows
    "(\<exists>page.
        ListTools lc p groupID query offset limit ks =
          Inr (Some \<lparr>Tools = page, Total = len (matching_tools lc p groupID query ks),
                     Offset = offset, Limit = limit\<rparr>, None) \<and>
        sint (len (matching_tools lc p groupID query ks)) =
          int (length (matching_tools lc p groupID query ks)) \<and>
        int (length page) =
          min (max (int (length (matching_tools lc p groupID query ks)) - sint offset) 0)
              (if limit = 0
               then max (int (length (matching_tools lc p groupID query ks)) - sint offset) 0
               else sint limit) \<and>
        (int (length (matching_tools lc p groupID query ks)) \<le> sint offset \<longrightarrow> page = []) \<and>
        (limit = 0 \<longrightarrow> page = drop (nat (sint offset)) (matching_tools lc p groupID query ks))) \<and>
     (\<exists>page.
        ListGroups lc gp parentID gquery offset limit gks =
          Inr (Some \<lparr>Groups = page, Total = len (matching_groups lc gp parentID gquery gks),
                     Offset = offset, Limit = limit\<rparr>, None) \<and>
        sint (len (matching_groups lc gp parentID gquery gks)) =
          int (length (matching_groups lc gp parentID gquery gks)) \<and>
        int (length page) =
          min (max (int (length (matching_groups lc gp parentID gquery gks)) - sint offset) 0)
              (if limit = 0
               then max (int (length (matching_groups lc gp parentID gquery gks)) - sint offset) 0
               else sint limit) \<and>
        (int (length (matching_groups lc gp parentID gquery gks)) \<le> sint offset \<longrightarrow> page = []) \<and>
        (limit = 0 \<longrightarrow>
           page = drop (nat (sint offset)) (matching_groups lc gp parentID gquery gks)))"
proof (rule conjI)
  let ?M = "matching_tools lc p groupID query ks"
  have n: "length ?M < 2 ^ 63"
    using length_matching_tools [of lc p groupID query ks] assms(3) by simp
  from paginate_page [OF n assms(1) assms(2) assms(5)]
  obtain page where pg: "paginate ?M offset limit = Inr page"
    and rest: "int (length page) =
          min (max (int (length ?M) - sint offset) 0)
              (if limit = 0 then max (int (length ?M) - sint offset) 0 else sint limit)"
      "int (length ?M) \<le> sint offset \<longrightarrow> page = []"
      "limit = 0 \<longrightarrow> page = drop (nat (sint offset)) ?M"
    by blast
  have "ListTools lc p groupID query offset limit ks =
          Inr (Some \<lparr>Tools = page, Total = len ?M, Offset = offset, Limit = limit\<rparr>, None)"
    by (simp add: ListTools_eq pg)
  with rest sint_len [OF n] show "\<exists>page.
        ListTools lc p groupID query offset limit ks =
          Inr (Some \<lparr>Tools = page, Total = len ?M, Offset = offset, Limit = limit\<rparr>, None) \<and>
        sint (len ?M) = int (length ?M) \<and>
        int (length page) =
          min (max (int (length ?M) - sint offset) 0)
              (if limit = 0 then max (int (length ?M) - sint offset) 0 else sint limit) \<and>
        (int (length ?M) \<le> sint offset \<longrightarrow> page = []) \<and>
        (limit = 0 \<longrightarrow> page = drop (nat (sint offset)) ?M)"
    by blast
next
  let ?M = "matching_groups lc gp parentID gquery gks"
  have n: "length ?M < 2 ^ 63"
    using length_matching_groups [of lc gp parentID gquery gks] assms(4) by simp
  from paginate_page [OF n assms(1) assms(2) assms(6)]
  obtain page where pg: "paginate ?M offset limit = Inr page"
    and rest: "int (length page) =
          min (max (int (length ?M) - sint offset) 0)
              (if limit = 0 then max (int (length ?M) - sint offset) 0 else sint limit)"
      "int (length ?M) \<le> sint offset \<longrightarrow> page = []"
      "limit = 0 \<longrightarrow> page = drop (nat (sint offset)) ?M"
    by blast
  have "ListGroups lc gp parentID gquery offset limit gks =
          Inr (Some \<lparr>Groups = page, Total = len ?M, Offset = offset, Limit = limit\<rparr>, None)"
    by (simp add: ListGroups_eq pg)
  with rest sint_len [OF n] show "\<exists>page.
        ListGroups lc gp parentID gquery offset limit gks =
          Inr (Some \<lparr>Groups = page, Total = len ?M, Offset = offset, Limit = limit\<rparr>, None) \<and>
        sint (len ?M) = int (length ?M) \<and>
        int (length page) =
          min (max (int (length ?M) - sint offset) 0)
              (if limit = 0 then max (int (length ?M) - sint offset) 0 else sint limit) \<and>
        (int (length ?M) \<le> sint offset \<longrightarrow> page = []) \<and>
        (limit = 0 \<longrightarrow> page = drop (nat (sint offset)) ?M)"
    by blast
qed

text \<open>The theorem at the example registries, with \<open>offset = 1\<close> and \<open>limit = 1\<close>.\<close>

theorem C1_page_length_witness:
  "0 \<le> sint (1 :: go_int) \<and>
   length [''add'', ''uppercase''] < 2 ^ 63 \<and> length [''math'', ''string''] < 2 ^ 63 \<and>
   sint (1 :: go_int) + sint (1 :: go_int) < 2 ^ 63 \<and>
   (\<exists>page. ListTools id exampleProvider '''' '''' 1 1 [''add'', ''uppercase''] =
              Inr (Some \<lparr>Tools = page, Total = 2, Offset = 1, Limit = 1\<rparr>, None) \<and>
            int (length page) = min (max (2 - 1) 0) 1) \<and>
   (\<exists>page. ListGroups id exampleGroupProvider '''' '''' 1 1 [''math'', ''string''] =
              Inr (Some \<lparr>Groups = page, Total = 2, Offset = 1, Limit = 1\<rparr>, None) \<and>
            int (length page) = min (max (2 - 1) 0) 1)"
proof -
  have h1: "0 \<le> sint (1 :: go_int)" by simp
  have h3: "length [''add'', ''uppercase''] < 2 ^ 63" by simp
  have h4: "length [''math'', ''string''] < 2 ^ 63" by simp
  have h5: "sint (1 :: go_int) + sint (1 :: go_int) < 2 ^ 63" by simp
  have h6: "int (length (matching_tools id exampleProvider '''' '''' [''add'', ''uppercase'']))
              \<le> sint (1 :: go_int) \<or> (1 :: go_int) = 0 \<or>
            sint (1 :: go_int) + sint (1 :: go_int) < 2 ^ 63"
    using h5 by simp
  have h7: "int (length (matching_groups id exampleGroupProvider '''' '''' [''math'', ''string'']))
              \<le> sint (1 :: go_int) \<or> (1 :: go_int) = 0 \<or>
            sint (1 :: go_int) + sint (1 :: go_int) < 2 ^ 63"
    using h5 by simp
  note c = C1_page_length [OF h1 h1 h3 h4 h6 h7]
  have "len [addTool, uppercaseTool] = 2" "len [mathGroup, stringGroup] = 2"
    by (simp_all add: len_def)
  with c have
    "(\<exists>page. ListTools id exampleProvider '''' '''' 1 1 [''add'', ''uppercase''] =
              Inr (Some \<lparr>Tools = page, Total = 2, Offset = 1, Limit = 1\<rparr>, None) \<and>
            int (length page) = min (max (2 - 1) 0) 1) \<and>
     (\<exists>page. ListGroups id exampleGroupProvider '''' '''' 1 1 [''math'', ''string''] =
              Inr (Some \<lparr>Groups = page, Total = 2, Offset = 1, Limit = 1\<rparr>, None) \<and>
            int (length page) = min (max (2 - 1) 0) 1)"
    by (simp add: example_matching_tools example_matching_groups)
  with h1 h3 h4 h5 show ?thesis by blast
qed

text \<open>
  The formula of the claim as it is written, with \<open>total - offset\<close> unclamped in the
  branch \<open>limit = 0\<close>, is negative when \<open>offset > total\<close>: with two tools, \<open>offset = 5\<close>
  and \<open>limit = 0\<close> it gives \<open>-3\<close>, and the page is empty.
\<close>

theorem C1_counterexample:
  "ListTools id exampleProvider '''' '''' 5 0 [''add'', ''uppercase''] =
     Inr (Some \<lparr>Tools = [], Total = 2, Offset = 5, Limit = 0\<rparr>, None) \<and>
   int (length ([] :: Tool list)) \<noteq>
     min (max (sint (2 :: go_int) - sint (5 :: go_int)) 0)
         (if (0 :: go_int) = 0 then sint (2 :: go_int) - sint (5 :: go_int)
          else sint (0 :: go_int))"
  by (simp add: ListTools_eq example_matching_tools paginate_def len_def)

text \<open>
  Claim C2, as amended. For every provider that is only a \<open>ToolProvider\<close>, the use case
  that lists the groups does not panic and does not call the provider: it leaves its
  output as it was and returns, as its error result, the error made by \<open>fmt.Errorf\<close>
  whose description is "groups not supported". That error is a plain message; it is not
  an \<open>ErrorDetail\<close>, the structured error of the source.
\<close>

theorem C2_groups_not_supported:
  "\<exists>e. listGroupsUsecase lc \<lparr>provider = IsSimpleProvider p\<rparr> input output ks =
          Inr (output, Some e) \<and>
        e = Errorf ''groups not supported'' \<and>
        error_Error e = Inr ''groups not supported'' \<and>
        \<not> is_Detail e"
  by (simp add: listGroupsUsecase_def as_GroupProvider_def)

text \<open>The theorem at a base provider whose capabilities enable the group routes.\<close>

theorem C2_groups_not_supported_witness:
  "\<exists>e. listGroupsUsecase id
          \<lparr>provider = IsSimpleProvider (NewSimpleProvider (Some (WithGroups NewCapabilities '''')))\<rparr>
          \<lparr>Q = '''', ParentID = '''', Offset = 0, Limit = 0\<rparr>
          \<lparr>Groups = [], Total = 0, Offset = 0, Limit = 0\<rparr> [] =
        Inr (\<lparr>Groups = [], Total = 0, Offset = 0, Limit = 0\<rparr>, Some e) \<and>
        error_Error e = Inr ''groups not supported''"
  using C2_groups_not_supported
    [of id "NewSimpleProvider (Some (WithGroups NewCapabilities ''''))"
        "\<lparr>Q = '''', ParentID = '''', Offset = 0, Limit = 0\<rparr>"
        "\<lparr>Groups = [], Total = 0, Offset = 0, Limit = 0\<rparr>" "[]"]
  by blast

text \<open>
  The error that the use case returns for that provider is not an \<open>ErrorDetail\<close>: the
  claim's structured error, with a code and a message, is not what the caller receives.
\<close>

theorem C2_counterexample:
  "listGroupsUsecase id
     \<lparr>provider = IsSimpleProvider (NewSimpleProvider (Some (WithGroups NewCapabilities '''')))\<rparr>
     \<lparr>Q = '''', ParentID = '''', Offset = 0, Limit = 0\<rparr>
     \<lparr>Groups = [], Total = 0, Offset = 0, Limit = 0\<rparr> [] =
   Inr (\<lparr>Groups = [], Total = 0, Offset = 0, Limit = 0\<rparr>,
        Some (Errorf ''groups not supported'')) \<and>
   \<not> is_Detail (Errorf ''groups not supported'')"
  by (simp add: listGroupsUsecase_def as_GroupProvider_def)

text \<open>
  Claim C3, as amended. For every registered tool whose executor returns an error whose
  method \<open>Error()\<close> returns a description, \<open>ExecuteTool\<close> returns a response whose
  error has the code "execution_error" and that description as its message; the error
  result of \<open>ExecuteTool\<close> itself is nil, and the call does not panic.
\<close>

theorem C3_execution_error:
  assumes "executors p toolName = Some executor"
    and "executor ps = Inr (result, Some err)"
    and "error_Error err = Inr message"
  shows "ExecuteTool p toolName ps =
           Inr (Some \<lparr>Result = AnyNil,
                      Error = Some \<lparr>Code = ''execution_error'', Message = message\<rparr>,
                      Meta = None\<rparr>, None)"
  using assms by (simp add: ExecuteTool_def)

text \<open>The theorem at the tool "uppercase" of the example registry, whose executor fails.\<close>

theorem C3_execution_error_witness:
  "executors exampleProvider ''uppercase'' = Some failingExecutor \<and>
   failingExecutor Map.empty = Inr (AnyNil, Some (Errorf ''text is required'')) \<and>
   error_Error (Errorf ''text is required'') = Inr ''text is required'' \<and>
   ExecuteTool exampleProvider ''uppercase'' Map.empty =
     Inr (Some \<lparr>Result = AnyNil,
                Error = Some \<lparr>Code = ''execution_error'', Message = ''text is required''\<rparr>,
                Meta = None\<rparr>, None)"
proof -
  have h1: "executors exampleProvider ''uppercase'' = Some failingExecutor"
    by (simp add: exampleProvider_def RegisterTool_def uppercaseTool_def WithGroup_def NewTool_def)
  have h2: "failingExecutor Map.empty = Inr (AnyNil, Some (Errorf ''text is required''))"
    by (simp add: failingExecutor_def)
  have h3: "error_Error (Errorf ''text is required'') = Inr ''text is required''"
    by simp
  from C3_execution_error [OF h1 h2 h3] h1 h2 h3 show ?thesis by (intro conjI)
qed

text \<open>
  An executor may return, as its error, an interface value that holds a nil
  \<open>*ErrorDetail\<close>. The test \<open>err != nil\<close> passes, the call \<open>err.Error()\<close> reads the
  fields of the nil receiver, and \<open>ExecuteTool\<close>, which has no \<open>recover\<close>, panics.
\<close>

theorem C3_counterexample:
  "executors nilDetailProvider ''lookup'' = Some nilDetailExecutor \<and>
   nilDetailExecutor Map.empty = Inr (AnyNil, Some (Detail None)) \<and>
   ExecuteTool nilDetailProvider ''lookup'' Map.empty = Inl NilDereference"
  by (simp add: ExecuteTool_def nilDetailProvider_def nilDetailExecutor_def RegisterTool_def
      NewTool_def)

text \<open>
  What \<open>ExecuteTool\<close> does with every returned error: it panics exactly when the
  method \<open>Error()\<close> of the error does.
\<close>

lemma ExecuteTool_error_panics:
  assumes "executors p toolName = Some executor"
    and "executor ps = Inr (result, Some err)"
    and "error_Error err = Inl f"
  shows "ExecuteTool p toolName ps = Inl f"
  using assms by (simp add: ExecuteTool_def)

text \<open>
  Claim C4. For every tool name that is not registered and every parameter map,
  \<open>ExecuteTool\<close> returns, with a nil error, a response whose error has the code
  "tool_not_found" and whose result is unset (nil).
\<close>

theorem C4_tool_not_found:
  assumes "executors p toolName = None"
  shows "ExecuteTool p toolName ps =
           Inr (Some \<lparr>Result = AnyNil,
                      Error = Some \<lparr>Code = ''tool_not_found'',
                                    Message = ''Tool not found: '' @ toolName\<rparr>,
                      Meta = None\<rparr>, None)"
  using assms by (simp add: ExecuteTool_def)

text \<open>The theorem at the name "nonexistent" and the empty parameter map.\<close>

theorem C4_tool_not_found_witness:
  "executors exampleProvider ''nonexistent'' = None \<and>
   ExecuteTool exampleProvider ''nonexistent'' Map.empty =
     Inr (Some \<lparr>Result = AnyNil,
                Error = Some \<lparr>Code = ''tool_not_found'',
                              Message = ''Tool not found: nonexistent''\<rparr>,
                Meta = None\<rparr>, None)"
proof -
  have h: "executors exampleProvider ''nonexistent'' = None"
    by (simp add: example_defs)
  from C4_tool_not_found [OF h] h show ?thesis by simp
qed

text \<open>
  \<open>RegisterTool\<close> writes both maps under the same key, so a name is unknown to
  \<open>executors\<close> exactly when it is unknown to \<open>tools\<close>.
\<close>

lemma RegisterTool_dom:
  "dom (tools p) = dom (executors p) \<Longrightarrow>
   dom (tools (RegisterTool p tool executor)) = dom (executors (RegisterTool p tool executor))"
  by (simp add: RegisterTool_def)

text \<open>
  Claim C5. For every name, description and query, \<open>matchesQuery\<close> holds if and only if
  the lower-cased query is a substring of the lower-cased name or of the lower-cased
  description. The loops of \<open>ListTools\<close> and \<open>ListGroups\<close>, with no group or parent
  filter, keep an item if and only if the query is empty or \<open>matchesQuery\<close> holds for it;
  with the empty query they keep every item.
\<close>

theorem C5_query_matching:
  "(matchesQuery lc name description query \<longleftrightarrow>
      (\<exists>pre suf. ToLower lc name = pre @ ToLower lc query @ suf) \<or>
      (\<exists>pre suf. ToLower lc description = pre @ ToLower lc query @ suf)) \<and>
   ListTools_loop lc '''' query [tool] [] =
     (if query = '''' \<or> matchesQuery lc (Tool.Name tool) (Tool.Description tool) query
      then [tool] else []) \<and>
   ListGroups_loop lc '''' query [grp] [] =
     (if query = '''' \<or> matchesQuery lc (Group.Name grp) (Group.Description grp) query
      then [grp] else []) \<and>
   ListTools_loop lc '''' '''' tools0 [] = tools0 \<and>
   ListGroups_loop lc '''' '''' groups0 [] = groups0"
proof -
  have 1: "ListTools_loop lc '''' '''' tools0 [] = tools0"
    by (simp add: ListTools_loop_filter tool_matches_def)
  have 2: "ListGroups_loop lc '''' '''' groups0 [] = groups0"
    by (simp add: ListGroups_loop_filter group_matches_def)
  show ?thesis using matchesQuery_iff [of lc name description query] 1 2 by simp
qed

text \<open>The theorem at the query "ADD" and an item named "add two numbers".\<close>

theorem C5_query_matching_witness:
  "ToLower id ''ADD'' = ''add'' \<and>
   matchesQuery id ''add two numbers'' '''' ''ADD'' \<and>
   ListTools_loop id '''' ''ADD'' [NewTool ''add two numbers'' ''''] [] =
     [NewTool ''add two numbers'' '''']"
proof -
  have l1: "ToLower id ''ADD'' = ''add''"
    by code_simp
  have l2: "ToLower id ''add two numbers'' = ''add two numbers''"
    by code_simp
  have "ToLower id ''add two numbers'' = [] @ ToLower id ''ADD'' @ '' two numbers''"
    by (simp add: l1 l2)
  then have ex: "\<exists>pre suf. ToLower id ''add two numbers'' = pre @ ToLower id ''ADD'' @ suf"
    by blast
  note c = C5_query_matching [of id "''add two numbers''" "''''" "''ADD''"
      "NewTool ''add two numbers'' ''''"]
  from c ex have m: "matchesQuery id ''add two numbers'' '''' ''ADD''" by blast
  from c m have "ListTools_loop id '''' ''ADD'' [NewTool ''add two numbers'' ''''] [] =
     [NewTool ''add two numbers'' '''']"
    by (simp add: NewTool_def)
  with l1 m show ?thesis by blast
qed

text \<open>
  Claim C6, as amended. For every non-empty \<open>groupID\<close>, the loop of \<open>ListTools\<close> keeps
  the tools whose \<open>GroupID\<close> equals it and then filters those by the query, so every tool
  of a returned page belongs to that group, and the error is nil. When no registered tool
  belongs to the group, \<open>ListTools\<close> returns, for every non-negative offset and every
  limit, an empty page with total 0 and a nil error.
\<close>

theorem C6_group_filter:
  assumes "groupID \<noteq> ''''"
  shows
    "ListTools_loop lc groupID query (map_range (tools p) ks) [] =
       filter (\<lambda>t. query = '''' \<or> matchesQuery lc (Tool.Name t) (Tool.Description t) query)
         (filter (\<lambda>t. GroupID t = groupID) (map_range (tools p) ks)) \<and>
     (\<forall>r e. ListTools lc p groupID query offset limit ks = Inr (Some r, e) \<longrightarrow>
        e = None \<and> (\<forall>t \<in> set (Tools r). GroupID t = groupID)) \<and>
     ((\<forall>t \<in> ran (tools p). GroupID t \<noteq> groupID) \<and> 0 \<le> sint offset \<longrightarrow>
        ListTools lc p groupID query offset limit ks =
          Inr (Some \<lparr>Tools = [], Total = 0, Offset = offset, Limit = limit\<rparr>, None))"
proof (intro conjI allI impI)
  show "ListTools_loop lc groupID query (map_range (tools p) ks) [] =
       filter (\<lambda>t. query = '''' \<or> matchesQuery lc (Tool.Name t) (Tool.Description t) query)
         (filter (\<lambda>t. GroupID t = groupID) (map_range (tools p) ks))"
    using assms by (simp add: ListTools_loop_filter tool_matches_group cong: filter_cong)
next
  fix r e
  assume a: "ListTools lc p groupID query offset limit ks = Inr (Some r, e)"
  then show "e = None"
    by (auto simp: ListTools_eq split: sum.splits)
next
  fix r e
  assume a: "ListTools lc p groupID query offset limit ks = Inr (Some r, e)"
  then obtain page where pg: "paginate (matching_tools lc p groupID query ks) offset limit = Inr page"
    and r: "Tools r = page"
    by (auto simp: ListTools_eq split: sum.splits)
  have "set page \<subseteq> set (matching_tools lc p groupID query ks)"
    using pg by (rule paginate_subset)
  then show "\<forall>t \<in> set (Tools r). GroupID t = groupID"
    using assms r by (auto simp: matching_tools_def tool_matches_group)
next
  assume a: "(\<forall>t \<in> ran (tools p). GroupID t \<noteq> groupID) \<and> 0 \<le> sint offset"
  have "\<forall>t \<in> set (map_range (tools p) ks). \<not> tool_matches lc groupID query t"
    using a assms set_map_range [of "tools p" ks] by (auto simp: tool_matches_group)
  then have "matching_tools lc p groupID query ks = []"
    by (simp add: matching_tools_def filter_empty_conv)
  then show "ListTools lc p groupID query offset limit ks =
          Inr (Some \<lparr>Tools = [], Total = 0, Offset = offset, Limit = limit\<rparr>, None)"
    using a by (simp add: ListTools_eq paginate_Nil len_def)
qed

text \<open>
  The theorem at the registry with the tools "add" of the group "math" and "uppercase"
  of the group "string": the group "math" lists "add" alone, and a group that no tool
  belongs to lists nothing.
\<close>

theorem C6_group_filter_witness:
  "''math'' \<noteq> '''' \<and> ''absent'' \<noteq> '''' \<and>
   ListTools id exampleProvider ''math'' '''' 0 0 [''add'', ''uppercase''] =
     Inr (Some \<lparr>Tools = [addTool], Total = 1, Offset = 0, Limit = 0\<rparr>, None) \<and>
   GroupID addTool = ''math'' \<and>
   GroupID addTool \<noteq> ''absent'' \<and> GroupID uppercaseTool \<noteq> ''absent'' \<and>
   0 \<le> sint (3 :: go_int) \<and>
   ListTools id exampleProvider ''absent'' '''' 3 10 [''add'', ''uppercase''] =
     Inr (Some \<lparr>Tools = [], Total = 0, Offset = 3, Limit = 10\<rparr>, None)"
proof -
  have h1: "''math'' \<noteq> ''''" by simp
  have h2: "''absent'' \<noteq> ''''" by simp
  have m: "matching_tools id exampleProvider ''math'' '''' [''add'', ''uppercase''] = [addTool]"
    by (simp add: matching_tools_def tool_matches_def example_defs)
  have e: "ListTools id exampleProvider ''math'' '''' 0 0 [''add'', ''uppercase''] =
     Inr (Some \<lparr>Tools = [addTool], Total = 1, Offset = 0, Limit = 0\<rparr>, None)"
    by (simp add: ListTools_eq m paginate_def slice_def len_def)
  note c1 = C6_group_filter [OF h1, of id "''''" exampleProvider "[''add'', ''uppercase'']" 0 0]
  from c1 have "\<forall>r e. ListTools id exampleProvider ''math'' '''' 0 0 [''add'', ''uppercase''] =
      Inr (Some r, e) \<longrightarrow> (\<forall>t \<in> set (Tools r). GroupID t = ''math'')"
    by blast
  from this [rule_format, OF e] have g: "GroupID addTool = ''math''"
    by simp
  have h3a: "GroupID addTool \<noteq> ''absent''" and h3b: "GroupID uppercaseTool \<noteq> ''absent''"
    by (simp_all add: addTool_def uppercaseTool_def WithGroup_def)
  have h3: "\<forall>t \<in> ran (tools exampleProvider). GroupID t \<noteq> ''absent''"
    using h3a h3b by (simp add: example_ran)
  have h4: "0 \<le> sint (3 :: go_int)" by simp
  note c2 = C6_group_filter [OF h2, of id "''''" exampleProvider "[''add'', ''uppercase'']" 3 10]
  from c2 h3 h4 have "ListTools id exampleProvider ''absent'' '''' 3 10 [''add'', ''uppercase''] =
     Inr (Some \<lparr>Tools = [], Total = 0, Offset = 3, Limit = 10\<rparr>, None)"
    by blast
  with h1 h2 e g h3a h3b h4 show ?thesis by (intro conjI)
qed

text \<open>
  With a negative offset the call does not return an empty page for a group that no tool
  belongs to: the test \<open>offset >= len(tools)\<close> fails, and the slice expression panics.
\<close>

theorem C6_counterexample:
  "''absent'' \<noteq> '''' \<and>
   GroupID addTool \<noteq> ''absent'' \<and> GroupID uppercaseTool \<noteq> ''absent'' \<and>
   ListTools id exampleProvider ''absent'' '''' (- 3) 10 [''add'', ''uppercase''] =
     Inl SliceBoundsOutOfRange"
proof -
  have m: "matching_tools id exampleProvider ''absent'' '''' [''add'', ''uppercase''] = []"
    by (simp add: matching_tools_def tool_matches_def example_defs)
  have g: "GroupID addTool \<noteq> ''absent''" "GroupID uppercaseTool \<noteq> ''absent''"
    by (simp_all add: addTool_def uppercaseTool_def WithGroup_def)
  have "ListTools id exampleProvider ''absent'' '''' (- 3) 10 [''add'', ''uppercase''] =
     Inl SliceBoundsOutOfRange"
    by (simp add: ListTools_eq m paginate_def slice_def len_def)
  with g show ?thesis by simp
qed

text \<open>
  Claim C7, as amended. The loop of \<open>ListTools\<close> visits the map \<open>tools\<close> in an order
  that Go does not fix, so two calls with the same arguments on an unmodified registry
  (of fewer than \<open>2 ^ 63\<close> tools) may visit it in two orders \<open>ks1\<close> and \<open>ks2\<close>. The two
  calls panic alike or return alike; when they return, both errors are nil, the totals,
  offsets and limits are the same, the pages have the same length, and every tool of
  either page is a registered tool that passes the filters. Whenever the page is as long
  as the total, that is, holds every matching tool, the two pages hold the same tools, as
  multisets; this is so for \<open>offset = 0\<close> with \<open>limit = 0\<close> or \<open>limit \<ge> total\<close>. When
  the page is empty the two responses are identical. Only the order of a page, and which
  of the matching tools a page that leaves some out holds, follow the iteration order.
\<close>

theorem C7_repeated_ListTools:
  assumes "iteration_order (tools p) ks1" and "iteration_order (tools p) ks2"
    and "length ks1 < 2 ^ 63"
  shows
    "(\<forall>f. ListTools lc p groupID query offset limit ks1 = Inl f \<longleftrightarrow>
          ListTools lc p groupID query offset limit ks2 = Inl f) \<and>
     (\<forall>r1 e1 r2 e2.
        ListTools lc p groupID query offset limit ks1 = Inr (r1, e1) \<longrightarrow>
        ListTools lc p groupID query offset limit ks2 = Inr (r2, e2) \<longrightarrow>
        e1 = None \<and> e2 = None \<and>
        (\<exists>x1 x2. r1 = Some x1 \<and> r2 = Some x2 \<and>
           ToolsResponse.Total x1 = ToolsResponse.Total x2 \<and>
           ToolsResponse.Offset x1 = ToolsResponse.Offset x2 \<and>
           ToolsResponse.Limit x1 = ToolsResponse.Limit x2 \<and>
           length (Tools x1) = length (Tools x2) \<and>
           set (Tools x1) \<subseteq> {t \<in> ran (tools p). tool_matches lc groupID query t} \<and>
           set (Tools x2) \<subseteq> {t \<in> ran (tools p). tool_matches lc groupID query t} \<and>
           (int (length (Tools x1)) = sint (ToolsResponse.Total x1) \<longrightarrow>
              mset (Tools x1) = mset (Tools x2)) \<and>
           (offset = 0 \<and> (limit = 0 \<or> sint (ToolsResponse.Total x1) \<le> sint limit) \<longrightarrow>
              int (length (Tools x1)) = sint (ToolsResponse.Total x1)) \<and>
           (Tools x1 = [] \<longrightarrow> x1 = x2)))"
proof -
  let ?M1 = "matching_tools lc p groupID query ks1"
  let ?M2 = "matching_tools lc p groupID query ks2"
  let ?ok = "{t \<in> ran (tools p). tool_matches lc groupID query t}"
  have ms: "mset ?M1 = mset ?M2"
    using assms(1,2) by (rule mset_matching_tools)
  then have len_eq: "length ?M1 = length ?M2"
    by (rule mset_eq_length)
  then have lenw: "len ?M1 = len ?M2"
    by (simp add: len_def)
  note same = paginate_same_length [OF len_eq, of offset limit]
  have n1: "length ?M1 < 2 ^ 63"
    using length_matching_tools [of lc p groupID query ks1] assms(3) by simp
  have tot: "sint (len ?M1) = int (length ?M1)"
    using n1 by (rule sint_len)
  have a: "\<forall>f. ListTools lc p groupID query offset limit ks1 = Inl f \<longleftrightarrow>
          ListTools lc p groupID query offset limit ks2 = Inl f"
    using same by (auto simp: ListTools_eq split: sum.splits)
  have b: "\<forall>r1 e1 r2 e2.
        ListTools lc p groupID query offset limit ks1 = Inr (r1, e1) \<longrightarrow>
        ListTools lc p groupID query offset limit ks2 = Inr (r2, e2) \<longrightarrow>
        e1 = None \<and> e2 = None \<and>
        (\<exists>x1 x2. r1 = Some x1 \<and> r2 = Some x2 \<and>
           ToolsResponse.Total x1 = ToolsResponse.Total x2 \<and>
           ToolsResponse.Offset x1 = ToolsResponse.Offset x2 \<and>
           ToolsResponse.Limit x1 = ToolsResponse.Limit x2 \<and>
           length (Tools x1) = length (Tools x2) \<and>
           set (Tools x1) \<subseteq> ?ok \<and>
           set (Tools x2) \<subseteq> ?ok \<and>
           (int (length (Tools x1)) = sint (ToolsResponse.Total x1) \<longrightarrow>
              mset (Tools x1) = mset (Tools x2)) \<and>
           (offset = 0 \<and> (limit = 0 \<or> sint (ToolsResponse.Total x1) \<le> sint limit) \<longrightarrow>
              int (length (Tools x1)) = sint (ToolsResponse.Total x1)) \<and>
           (Tools x1 = [] \<longrightarrow> x1 = x2))"
  proof (intro allI impI)
    fix r1 e1 r2 e2
    assume c1: "ListTools lc p groupID query offset limit ks1 = Inr (r1, e1)"
      and c2: "ListTools lc p groupID query offset limit ks2 = Inr (r2, e2)"
    from c1 obtain pg1 where p1: "paginate ?M1 offset limit = Inr pg1"
      and r1: "r1 = Some \<lparr>Tools = pg1, Total = len ?M1, Offset = offset, Limit = limit\<rparr>"
      and e1: "e1 = None"
      by (auto simp: ListTools_eq split: sum.splits)
    from c2 obtain pg2 where p2: "paginate ?M2 offset limit = Inr pg2"
      and r2: "r2 = Some \<lparr>Tools = pg2, Total = len ?M2, Offset = offset, Limit = limit\<rparr>"
      and e2: "e2 = None"
      by (auto simp: ListTools_eq split: sum.splits)
    have l: "length pg1 = length pg2" using same p1 p2 by blast
    have s1: "set pg1 \<subseteq> ?ok"
      using paginate_subset [OF p1] set_matching_tools [of lc p groupID query ks1] by blast
    have s2: "set pg2 \<subseteq> ?ok"
      using paginate_subset [OF p2] set_matching_tools [of lc p groupID query ks2] by blast
    have cover: "int (length pg1) = sint (len ?M1) \<longrightarrow> mset pg1 = mset pg2"
    proof
      assume "int (length pg1) = sint (len ?M1)"
      then have f1: "length pg1 = length ?M1" using tot by simp
      then have f2: "length pg2 = length ?M2" using l len_eq by simp
      have "pg1 = ?M1" using p1 f1 by (rule paginate_covering)
      moreover have "pg2 = ?M2" using p2 f2 by (rule paginate_covering)
      ultimately show "mset pg1 = mset pg2" using ms by simp
    qed
    have start: "offset = 0 \<and> (limit = 0 \<or> sint (len ?M1) \<le> sint limit) \<longrightarrow>
        int (length pg1) = sint (len ?M1)"
    proof
      assume h: "offset = 0 \<and> (limit = 0 \<or> sint (len ?M1) \<le> sint limit)"
      then have "limit = 0 \<or> int (length ?M1) \<le> sint limit" using tot by simp
      from paginate_from_start [OF n1 this] p1 h have "pg1 = ?M1" by simp
      then show "int (length pg1) = sint (len ?M1)" using tot by simp
    qed
    have empty: "pg1 = [] \<longrightarrow> pg2 = []" using l by auto
    show "e1 = None \<and> e2 = None \<and>
        (\<exists>x1 x2. r1 = Some x1 \<and> r2 = Some x2 \<and>
           ToolsResponse.Total x1 = ToolsResponse.Total x2 \<and>
           ToolsResponse.Offset x1 = ToolsResponse.Offset x2 \<and>
           ToolsResponse.Limit x1 = ToolsResponse.Limit x2 \<and>
           length (Tools x1) = length (Tools x2) \<and>
           set (Tools x1) \<subseteq> ?ok \<and>
           set (Tools x2) \<subseteq> ?ok \<and>
           (int (length (Tools x1)) = sint (ToolsResponse.Total x1) \<longrightarrow>
              mset (Tools x1) = mset (Tools x2)) \<and>
           (offset = 0 \<and> (limit = 0 \<or> sint (ToolsResponse.Total x1) \<le> sint limit) \<longrightarrow>
              int (length (Tools x1)) = sint (ToolsResponse.Total x1)) \<and>
           (Tools x1 = [] \<longrightarrow> x1 = x2))"
      using e1 e2 r1 r2 l lenw s1 s2 cover start empty
      by simp
  qed
  from a b show ?thesis by (rule conjI)
qed

text \<open>
  The theorem at the example registry, visited in its two possible orders, with
  \<open>offset = 0\<close> and the limit 100 that the server puts in place of a missing one.
\<close>

theorem C7_repeated_ListTools_witness:
  "iteration_order (tools exampleProvider) [''add'', ''uppercase''] \<and>
   iteration_order (tools exampleProvider) [''uppercase'', ''add''] \<and>
   length [''add'', ''uppercase''] < 2 ^ 63 \<and>
   ListTools id exampleProvider '''' '''' 0 100 [''add'', ''uppercase''] =
     Inr (Some \<lparr>Tools = [addTool, uppercaseTool], Total = 2, Offset = 0, Limit = 100\<rparr>, None) \<and>
   ListTools id exampleProvider '''' '''' 0 100 [''uppercase'', ''add''] =
     Inr (Some \<lparr>Tools = [uppercaseTool, addTool], Total = 2, Offset = 0, Limit = 100\<rparr>, None) \<and>
   length [addTool, uppercaseTool] = length [uppercaseTool, addTool] \<and>
   mset [addTool, uppercaseTool] = mset [uppercaseTool, addTool]"
proof -
  have o1: "iteration_order (tools exampleProvider) [''add'', ''uppercase'']"
    by (auto simp: iteration_order_def example_tools)
  have o2: "iteration_order (tools exampleProvider) [''uppercase'', ''add'']"
    by (auto simp: iteration_order_def example_tools)
  have n: "length [''add'', ''uppercase''] < 2 ^ 63" by simp
  note c = C7_repeated_ListTools [OF o1 o2 n, of id "''''" "''''" 0 100]
  from c have t: "\<forall>r1 e1 r2 e2.
      ListTools id exampleProvider '''' '''' 0 100 [''add'', ''uppercase''] = Inr (r1, e1) \<longrightarrow>
      ListTools id exampleProvider '''' '''' 0 100 [''uppercase'', ''add''] = Inr (r2, e2) \<longrightarrow>
      (\<exists>x1 x2. r1 = Some x1 \<and> r2 = Some x2 \<and>
         length (Tools x1) = length (Tools x2) \<and>
         (int (length (Tools x1)) = sint (ToolsResponse.Total x1) \<longrightarrow>
            mset (Tools x1) = mset (Tools x2)))"
    by blast
  have m1: "matching_tools id exampleProvider '''' '''' [''add'', ''uppercase''] =
      [addTool, uppercaseTool]"
    by (simp add: matching_tools_def tool_matches_def example_tools)
  have m2: "matching_tools id exampleProvider '''' '''' [''uppercase'', ''add''] =
      [uppercaseTool, addTool]"
    by (simp add: matching_tools_def tool_matches_def example_tools)
  have e1: "ListTools id exampleProvider '''' '''' 0 100 [''add'', ''uppercase''] =
     Inr (Some \<lparr>Tools = [addTool, uppercaseTool], Total = 2, Offset = 0, Limit = 100\<rparr>, None)"
    by (simp add: ListTools_eq m1 paginate_def slice_def len_def)
  have e2: "ListTools id exampleProvider '''' '''' 0 100 [''uppercase'', ''add''] =
     Inr (Some \<lparr>Tools = [uppercaseTool, addTool], Total = 2, Offset = 0, Limit = 100\<rparr>, None)"
    by (simp add: ListTools_eq m2 paginate_def slice_def len_def)
  from t [rule_format, OF e1 e2]
  have l: "length [addTool, uppercaseTool] = length [uppercaseTool, addTool]"
    and ms: "mset [addTool, uppercaseTool] = mset [uppercaseTool, addTool]"
    by simp_all
  from o1 o2 n e1 e2 l ms show ?thesis by (intro conjI)
qed

text \<open>
  On the example registry, the call with \<open>offset = 0\<close> and \<open>limit = 1\<close> returns the page
  with the tool "add" under one iteration order and the page with the tool "uppercase"
  under the other.
\<close>

theorem C7_counterexample:
  "iteration_order (tools exampleProvider) [''add'', ''uppercase''] \<and>
   iteration_order (tools exampleProvider) [''uppercase'', ''add''] \<and>
   ListTools id exampleProvider '''' '''' 0 1 [''add'', ''uppercase''] =
     Inr (Some \<lparr>Tools = [addTool], Total = 2, Offset = 0, Limit = 1\<rparr>, None) \<and>
   ListTools id exampleProvider '''' '''' 0 1 [''uppercase'', ''add''] =
     Inr (Some \<lparr>Tools = [uppercaseTool], Total = 2, Offset = 0, Limit = 1\<rparr>, None) \<and>
   ListTools id exampleProvider '''' '''' 0 1 [''add'', ''uppercase''] \<noteq>
     ListTools id exampleProvider '''' '''' 0 1 [''uppercase'', ''add'']"
proof -
  have m1: "matching_tools id exampleProvider '''' '''' [''add'', ''uppercase''] =
      [addTool, uppercaseTool]"
    by (simp add: matching_tools_def tool_matches_def example_tools)
  have m2: "matching_tools id exampleProvider '''' '''' [''uppercase'', ''add''] =
      [uppercaseTool, addTool]"
    by (simp add: matching_tools_def tool_matches_def example_tools)
  have o1: "iteration_order (tools exampleProvider) [''add'', ''uppercase'']"
    by (auto simp: iteration_order_def example_tools)
  have o2: "iteration_order (tools exampleProvider) [''uppercase'', ''add'']"
    by (auto simp: iteration_order_def example_tools)
  have d: "addTool \<noteq> uppercaseTool"
    by (simp add: addTool_def uppercaseTool_def WithGroup_def NewTool_def)
  show ?thesis
    using o1 o2 d by (simp add: ListTools_eq m1 m2 paginate_def slice_def len_def)
qed

text \<open>
  Claim C8. For every sequence of tools and every response, attaching the meta response
  of \<open>NewMetaToolsAdded\<close> with \<open>WithMeta\<close> gives a response whose meta has the type
  "tools_added" and whose meta data is a map with the single key "tools", under which
  the tools are stored as they were passed, with their names, descriptions and input
  schemas. The result and the error of the response are unchanged.
\<close>

theorem C8_tools_added_roundtrip:
  "\<exists>d. Meta (WithMeta r (NewMetaToolsAdded tools0)) =
          Some \<lparr>Type = AnyString ''tools_added'', Data = AnyMap d\<rparr> \<and>
        d ''tools'' = Some (AnyTools tools0) \<and> dom d = {''tools''} \<and>
        Result (WithMeta r (NewMetaToolsAdded tools0)) = Result r \<and>
        Error (WithMeta r (NewMetaToolsAdded tools0)) = Error r"
  by (simp add: WithMeta_def NewMetaToolsAdded_def)

text \<open>The theorem at the tool "add" and a response with a result.\<close>

theorem C8_tools_added_roundtrip_witness:
  "\<exists>d. Meta (WithMeta (NewExecuteResponse (AnyString ''Discovered 1 new math tool''))
               (NewMetaToolsAdded [addTool])) =
          Some \<lparr>Type = AnyString ''tools_added'', Data = AnyMap d\<rparr> \<and>
        d ''tools'' = Some (AnyTools [addTool])"
  using C8_tools_added_roundtrip
    [of "NewExecuteResponse (AnyString ''Discovered 1 new math tool'')" "[addTool]"]
  by blast

text \<open>
  Claim C9. For every server whose provider implements \<open>GroupProvider\<close>, every group
  ID, tool name and request body, the use case of the group-scoped route returns what
  the use case of the plain route returns for the same name and body: the group ID of
  the path is not read, and the tool is not checked against the group.
\<close>

theorem C9_group_route_same_response:
  assumes "as_GroupProvider (provider s) = Some gp"
    and "ExecuteGroupToolInput.Name gin = ExecuteToolInput.Name tin"
    and "ExecuteGroupToolInput.Body gin = ExecuteToolInput.Body tin"
  shows "executeGroupToolUsecase s gin output = executeToolUsecase s tin output"
  using assms
  by (cases "provider s")
     (simp_all add: as_GroupProvider_def executeGroupToolUsecase_def executeToolUsecase_def
        GroupProvider_ExecuteTool_def ToolProvider_ExecuteTool_def)

text \<open>
  The theorem at the example provider: the tool "add", of the group "math", runs through
  the route of the group "string".
\<close>

theorem C9_group_route_same_response_witness:
  "as_GroupProvider (provider \<lparr>provider = IsGroupProviderImpl exampleGroupProvider\<rparr>) =
     Some exampleGroupProvider \<and>
   executeGroupToolUsecase \<lparr>provider = IsGroupProviderImpl exampleGroupProvider\<rparr>
     \<lparr>ID = ''string'', Name = ''add'', Params = None, Body = None\<rparr>
     (NewExecuteResponse AnyNil) =
   executeToolUsecase \<lparr>provider = IsGroupProviderImpl exampleGroupProvider\<rparr>
     \<lparr>ExecuteToolInput.Name = ''add'', ExecuteToolInput.Params = None, ExecuteToolInput.Body = None\<rparr>
     (NewExecuteResponse AnyNil) \<and>
   executeGroupToolUsecase \<lparr>provider = IsGroupProviderImpl exampleGroupProvider\<rparr>
     \<lparr>ID = ''string'', Name = ''add'', Params = None, Body = None\<rparr>
     (NewExecuteResponse AnyNil) =
   Inr (\<lparr>Result = AnyMap Map.empty, Error = None, Meta = None\<rparr>, None)"
proof -
  have h1: "as_GroupProvider (provider \<lparr>provider = IsGroupProviderImpl exampleGroupProvider\<rparr>) =
     Some exampleGroupProvider"
    by (simp add: as_GroupProvider_def)
  have h2: "ExecuteGroupToolInput.Name \<lparr>ID = ''string'', Name = ''add'', Params = None, Body = None\<rparr> =
            ExecuteToolInput.Name \<lparr>ExecuteToolInput.Name = ''add'', ExecuteToolInput.Params = None, ExecuteToolInput.Body = None\<rparr>"
    by simp
  have h3: "ExecuteGroupToolInput.Body \<lparr>ID = ''string'', Name = ''add'', Params = None, Body = None\<rparr> =
            ExecuteToolInput.Body \<lparr>ExecuteToolInput.Name = ''add'', ExecuteToolInput.Params = None, ExecuteToolInput.Body = None\<rparr>"
    by simp
  note c = C9_group_route_same_response [OF h1 h2 h3, of "NewExecuteResponse AnyNil"]
  have ex: "executors exampleProvider ''add'' = Some echoExecutor"
    by (simp add: exampleProvider_def RegisterTool_def addTool_def uppercaseTool_def
        WithGroup_def NewTool_def)
  have e: "executeToolUsecase \<lparr>provider = IsGroupProviderImpl exampleGroupProvider\<rparr>
     \<lparr>ExecuteToolInput.Name = ''add'', ExecuteToolInput.Params = None, ExecuteToolInput.Body = None\<rparr>
     (NewExecuteResponse AnyNil) =
   Inr (\<lparr>Result = AnyMap Map.empty, Error = None, Meta = None\<rparr>, None)"
    by (simp add: executeToolUsecase_def ToolProvider_ExecuteTool_def ExecuteTool_def
        exampleGroupProvider_def ex echoExecutor_def)
  from h1 c e show ?thesis by simp
qed

text \<open>
  Claim C10 says that for a non-negative \<open>offset\<close> and \<open>limit\<close> the slice expression of
  the pagination block is always in bounds. With two items, \<open>offset = 1\<close> and \<open>limit\<close>
  the largest \<open>int\<close>, the sum \<open>offset + limit\<close> wraps around to the smallest \<open>int\<close>,
  the test \<open>end > len\<close> fails, and the slice expression \<open>[1:end]\<close> panics, in
  \<open>ListTools\<close> and in \<open>ListGroups\<close>.
\<close>

theorem C10_slice_bounds_out_of_range:
  "0 \<le> sint (1 :: go_int) \<and> 0 \<le> sint (9223372036854775807 :: go_int) \<and>
   ListTools id exampleProvider '''' '''' 1 9223372036854775807 [''add'', ''uppercase''] =
     Inl SliceBoundsOutOfRange \<and>
   ListGroups id exampleGroupProvider '''' '''' 1 9223372036854775807 [''math'', ''string''] =
     Inl SliceBoundsOutOfRange"
  by (simp add: ListTools_eq ListGroups_eq example_matching_tools example_matching_groups
      paginate_def slice_def len_def)

end
